theory Spec2Isabelle
  imports Main "HOL-Library.Multiset" "HOL-Library.Char_ord" "HOL-Library.List_Lexorder"
    "HOL-Library.Product_Lexorder"
begin

section \<open>Data model\<close>

text \<open>
  The dashboard of \<^verbatim>\<open>app.py\<close> is a run-once pipeline over a pandas data frame. A data
  frame is modelled as the list of its rows, in row order. Timestamps are whole seconds
  since the epoch and a calendar date is its day number, so that \<^verbatim>\<open>timedelta(days=7)\<close>
  is the integer 7. Every column of the query result may hold NULL, which reaches pandas
  as a null cell (\<open>None\<close> here); the code neither drops nor fills null cells.
  The \<^verbatim>\<open>topics\<close> column holds a null, the serialized text the backend stored, or a list of
  labels.
\<close>

datatype py_error = IndexError | AttributeError | TypeError | SyntaxError | NameError

datatype topics_cell = TopicsNull | TopicsStr string | TopicsList "string list"

type_synonym timestamp = int
type_synonym date = int

text \<open>One row of the query result (the seven selected columns).\<close>

record row =
  publishedAt :: "timestamp option"
  title :: "string option"
  sentiment :: "string option"
  topics :: topics_cell
  text_col :: "string option"
  source :: "string option"
  url :: "string option"

text \<open>A row of the loaded frame: the loader adds the columns \<^verbatim>\<open>date\<close> and \<^verbatim>\<open>hour\<close>.\<close>

record article = row +
  date :: "date option"
  hour :: "int option"

section \<open>pandas operations used by the pipeline\<close>

text \<open>\<^verbatim>\<open>Series.unique\<close> order: each value once, in order of first appearance.\<close>

fun unique :: "'a list \<Rightarrow> 'a list" where
  "unique [] = []"
| "unique (x # xs) = x # unique (filter (\<lambda>y. y \<noteq> x) xs)"

text \<open>
  \<^verbatim>\<open>Series.value_counts().reset_index()\<close>: null cells are dropped (\<^verbatim>\<open>dropna=True\<close> is the
  default), every remaining distinct value gets the number of its occurrences, and the
  rows are ordered by count, largest first. pandas does not fix the order among equal
  counts; the model keeps first appearance there, and no theorem below depends on it.
\<close>

definition dropna :: "'a option list \<Rightarrow> 'a list" where
  "dropna col = concat (map (\<lambda>c. case c of None \<Rightarrow> [] | Some v \<Rightarrow> [v]) col)"

definition value_counts :: "'a option list \<Rightarrow> ('a \<times> nat) list" where
  "value_counts col =
     (let vs = dropna col
      in sort_key (\<lambda>kc. - int (snd kc)) (map (\<lambda>k. (k, count_list vs k)) (unique vs)))"

text \<open>
  \<^verbatim>\<open>groupby([a, b]).size().reset_index(name="count")\<close>: rows with a null in either key
  column belong to no group (\<^verbatim>\<open>dropna=True\<close> is the default); every key pair that occurs
  gets one row with the size of its group, in ascending key order.
\<close>

definition dropna_keys :: "('a option \<times> 'b option) list \<Rightarrow> ('a \<times> 'b) list" where
  "dropna_keys ks =
     concat (map (\<lambda>k. case k of (Some a, Some b) \<Rightarrow> [(a, b)] | _ \<Rightarrow> []) ks)"

definition groupby_size ::
    "('a::linorder option \<times> 'b::linorder option) list \<Rightarrow> (('a \<times> 'b) \<times> nat) list" where
  "groupby_size ks =
     (let vs = dropna_keys ks
      in map (\<lambda>k. (k, count_list vs k)) (sort (unique vs)))"

text \<open>
  \<^verbatim>\<open>Series.min()\<close> and \<^verbatim>\<open>Series.max()\<close> skip null cells (\<^verbatim>\<open>skipna=True\<close>) and give the
  least and greatest of the others; with nothing left pandas returns NaN, a float, which
  is \<open>None\<close> here.
\<close>

definition series_min :: "int option list \<Rightarrow> int option" where
  "series_min col = (case dropna col of [] \<Rightarrow> None | x # rest \<Rightarrow> Some (fold min rest x))"

definition series_max :: "int option list \<Rightarrow> int option" where
  "series_max col = (case dropna col of [] \<Rightarrow> None | x # rest \<Rightarrow> Some (fold max rest x))"

text \<open>
  Descending order on a nullable timestamp column, as both \<^verbatim>\<open>ORDER BY ... DESC\<close> of the
  backend and \<^verbatim>\<open>sort_values(..., ascending=False)\<close> produce it: larger timestamps first,
  nulls last. Neither fixes the order of rows with equal keys; the model keeps their
  input order.
\<close>

definition desc_key :: "int option \<Rightarrow> nat \<times> int" where
  "desc_key k = (case k of None \<Rightarrow> (1, 0) | Some t \<Rightarrow> (0, - t))"

definition sort_values_desc :: "('a \<Rightarrow> int option) \<Rightarrow> 'a list \<Rightarrow> 'a list" where
  "sort_values_desc key df = sort_key (\<lambda>r. desc_key (key r)) df"

fun desc_le :: "int option \<Rightarrow> int option \<Rightarrow> bool" where
  "desc_le (Some a) (Some b) = (b \<le> a)"
| "desc_le (Some a) None = True"
| "desc_le None None = True"
| "desc_le None (Some b) = False"

definition descending :: "int option list \<Rightarrow> bool" where
  "descending ks = sorted_wrt desc_le ks"

text \<open>\<^verbatim>\<open>sep.join(xs)\<close> on strings.\<close>

fun str_join :: "string \<Rightarrow> string list \<Rightarrow> string" where
  "str_join sep [] = []"
| "str_join sep [x] = x"
| "str_join sep (x # y # ys) = x @ sep @ str_join sep (y # ys)"

text \<open>\<^verbatim>\<open>str(x)\<close> as an f-string applies it to a nullable text cell.\<close>

definition py_str :: "string option \<Rightarrow> string" where
  "py_str c = (case c of None \<Rightarrow> ''None'' | Some s \<Rightarrow> s)"

text \<open>
  \<^verbatim>\<open>DataFrame.explode\<close> on one cell: a list yields one row per element, an empty list one
  null row, and a scalar (a string or a null) stays a single row.
\<close>

fun explode :: "topics_cell \<Rightarrow> string option list" where
  "explode TopicsNull = [None]"
| "explode (TopicsStr s) = [Some s]"
| "explode (TopicsList []) = [None]"
| "explode (TopicsList ts) = map Some ts"

section \<open>Data loader\<close>

text \<open>
  The query text is \<^verbatim>\<open>ORDER BY publishedAt DESC LIMIT 200\<close> over the backend table, given
  here as the list of its rows.
\<close>

definition run_query :: "row list \<Rightarrow> row list" where
  "run_query tbl = take 200 (sort_values_desc publishedAt tbl)"

text \<open>
  The backend hands timestamps over as timestamps, so \<^verbatim>\<open>pd.to_datetime\<close> keeps the value
  (a null stays null). \<^verbatim>\<open>.dt.date\<close> is the day number and \<^verbatim>\<open>.dt.hour\<close> the hour within
  the day; both are null on a null timestamp.
\<close>

definition to_datetime :: "timestamp option \<Rightarrow> timestamp option" where
  "to_datetime t = t"

definition dt_date :: "timestamp option \<Rightarrow> date option" where
  "dt_date t = map_option (\<lambda>s. s div 86400) t"

definition dt_hour :: "timestamp option \<Rightarrow> int option" where
  "dt_hour t = map_option (\<lambda>s. (s mod 86400) div 3600) t"

definition add_derived :: "row \<Rightarrow> article" where
  "add_derived r =
     \<lparr>publishedAt = to_datetime (publishedAt r), title = title r, sentiment = sentiment r,
      topics = topics r, text_col = text_col r, source = source r, url = url r,
      date = dt_date (to_datetime (publishedAt r)),
      hour = dt_hour (to_datetime (publishedAt r))\<rparr>"

text \<open>
  \<^verbatim>\<open>df["topics"].apply(eval)\<close>: Python's \<^verbatim>\<open>eval\<close> is a parameter \<open>ev\<close> of the model, from
  the stored text to the decoded cell or the exception raised. Applied to a cell that is
  not text, \<^verbatim>\<open>eval\<close> raises \<^verbatim>\<open>TypeError\<close>. The first exception ends the load.
\<close>

definition decode_cell ::
    "(string \<Rightarrow> py_error + topics_cell) \<Rightarrow> topics_cell \<Rightarrow> py_error + topics_cell" where
  "decode_cell ev c =
     (case c of TopicsStr s \<Rightarrow> ev s | TopicsList l \<Rightarrow> Inl TypeError | TopicsNull \<Rightarrow> Inl TypeError)"

fun apply_eval ::
    "(string \<Rightarrow> py_error + topics_cell) \<Rightarrow> article list \<Rightarrow> py_error + article list" where
  "apply_eval ev [] = Inr []"
| "apply_eval ev (r # rs) =
     (case decode_cell ev (topics r) of
        Inl e \<Rightarrow> Inl e
      | Inr c \<Rightarrow>
          (case apply_eval ev rs of
             Inl e \<Rightarrow> Inl e
           | Inr rs' \<Rightarrow> Inr (r\<lparr>topics := c\<rparr> # rs')))"

text \<open>
  \<^verbatim>\<open>df["topics"].iloc[0]\<close> raises \<^verbatim>\<open>IndexError\<close> on a frame without rows; otherwise the
  type of the first cell alone decides whether the column is decoded.
\<close>

definition load_sentiment_data ::
    "(string \<Rightarrow> py_error + topics_cell) \<Rightarrow> row list \<Rightarrow> py_error + article list" where
  "load_sentiment_data ev tbl =
     (let df = map add_derived (run_query tbl)
      in case df of
           [] \<Rightarrow> Inl IndexError
         | r # _ \<Rightarrow>
             (case topics r of
                TopicsStr _ \<Rightarrow> apply_eval ev df
              | TopicsList _ \<Rightarrow> Inr df
              | TopicsNull \<Rightarrow> Inr df))"

section \<open>Filter stage and caption\<close>

text \<open>
  \<open>today\<close> is \<^verbatim>\<open>datetime.now().date()\<close>, read when the filter runs. The comparison
  \<^verbatim>\<open>df["date"] >= last_7_days\<close> is false on a null date, so such a row is dropped. There
  is no comparison against \<open>today\<close> itself.
\<close>

definition last_7_days :: "date \<Rightarrow> date" where
  "last_7_days today = today - 7"

definition filter_stage :: "date \<Rightarrow> article list \<Rightarrow> article list" where
  "filter_stage today df =
     filter (\<lambda>r. case date r of None \<Rightarrow> False | Some d \<Rightarrow> last_7_days today \<le> d) df"

text \<open>
  \<^verbatim>\<open>df["date"].min().strftime(...)\<close>: the NaN of an empty column has no \<^verbatim>\<open>strftime\<close>, so
  the attribute lookup raises. The formatting of a date is the parameter \<open>fmt\<close>.
\<close>

definition strftime :: "(date \<Rightarrow> string) \<Rightarrow> date option \<Rightarrow> py_error + string" where
  "strftime fmt d = (case d of None \<Rightarrow> Inl AttributeError | Some v \<Rightarrow> Inr (fmt v))"

definition date_from :: "(date \<Rightarrow> string) \<Rightarrow> article list \<Rightarrow> py_error + string" where
  "date_from fmt df = strftime fmt (series_min (map date df))"

definition date_to :: "(date \<Rightarrow> string) \<Rightarrow> article list \<Rightarrow> py_error + string" where
  "date_to fmt df = strftime fmt (series_max (map date df))"

text \<open>Lines 39 and 40 in order: the pair of caption strings, or the first exception.\<close>

definition date_range :: "(date \<Rightarrow> string) \<Rightarrow> article list \<Rightarrow> py_error + (string \<times> string)" where
  "date_range fmt df =
     (case date_from fmt df of
        Inl e \<Rightarrow> Inl e
      | Inr a \<Rightarrow> (case date_to fmt df of Inl e \<Rightarrow> Inl e | Inr b \<Rightarrow> Inr (a, b)))"

section \<open>Aggregation stage\<close>

definition sentiment_counts :: "article list \<Rightarrow> (string \<times> nat) list" where
  "sentiment_counts df = value_counts (map sentiment df)"

definition sentiment_trend :: "article list \<Rightarrow> ((date \<times> string) \<times> nat) list" where
  "sentiment_trend df = groupby_size (map (\<lambda>r. (date r, sentiment r)) df)"



definition topic_counts :: "article list \<Rightarrow> (string \<times> nat) list" where
  "topic_counts df = value_counts (concat (map (\<lambda>r. explode (topics r)) df))"

text \<open>
  Line 47, \<^verbatim>\<open>" ".join(df["text"])\<close>, feeds the word cloud; a null cell in the column makes
  \<^verbatim>\<open>join\<close> raise.
\<close>

definition text_corpus :: "article list \<Rightarrow> py_error + string" where
  "text_corpus df =
     (if None \<in> set (map text_col df) then Inl TypeError
      else Inr (str_join '' '' (dropna (map text_col df))))"



section \<open>Table\<close>

text \<open>
  Lines 71 and 72 do write to the frame: the title becomes a markdown link and the column
  \<^verbatim>\<open>topics_display\<close> is added. Joining a cell that is still text joins its characters,
  and joining a null cell raises.
\<close>

record display_row = article +
  topics_display :: string

definition markdown_title :: "article \<Rightarrow> string" where
  "markdown_title r = ''['' @ py_str (title r) @ '']('' @ py_str (url r) @ '')''"

definition join_topics :: "topics_cell \<Rightarrow> py_error + string" where
  "join_topics c =
     (case c of
        TopicsNull \<Rightarrow> Inl TypeError
      | TopicsList ts \<Rightarrow> Inr (str_join '', '' ts)
      | TopicsStr s \<Rightarrow> Inr (str_join '', '' (map (\<lambda>ch. [ch]) s)))"

definition with_display :: "article \<Rightarrow> string \<Rightarrow> display_row" where
  "with_display r s =
     \<lparr>publishedAt = publishedAt r, title = Some (markdown_title r), sentiment = sentiment r,
      topics = topics r, text_col = text_col r, source = source r, url = url r,
      date = date r, hour = hour r, topics_display = s\<rparr>"

fun table_prep :: "article list \<Rightarrow> py_error + display_row list" where
  "table_prep [] = Inr []"
| "table_prep (r # rs) =
     (case join_topics (topics r) of
        Inl e \<Rightarrow> Inl e
      | Inr s \<Rightarrow>
          (case table_prep rs of
             Inl e \<Rightarrow> Inl e
           | Inr rs' \<Rightarrow> Inr (with_display r s # rs')))"

definition df_sorted :: "article list \<Rightarrow> py_error + display_row list" where
  "df_sorted df =
     (case table_prep df of
        Inl e \<Rightarrow> Inl e
      | Inr rows \<Rightarrow> Inr (sort_values_desc publishedAt rows))"

text \<open>One table record: source, title, topics_display, sentiment, publishedAt.\<close>

type_synonym table_record =
  "string option \<times> string option \<times> string \<times> string option \<times> timestamp option"

definition to_record :: "display_row \<Rightarrow> table_record" where
  "to_record r = (source r, title r, topics_display r, sentiment r, publishedAt r)"

definition record_publishedAt :: "table_record \<Rightarrow> timestamp option" where
  "record_publishedAt rec = snd (snd (snd (snd rec)))"

record data_table =
  columns :: "(string \<times> string) list"
  data :: "table_record list"
  page_size :: nat

definition headlines_table :: "article list \<Rightarrow> py_error + data_table" where
  "headlines_table df =
     (case df_sorted df of
        Inl e \<Rightarrow> Inl e
      | Inr rows \<Rightarrow>
          Inr \<lparr>columns = [(''Source'', ''source''), (''Title'', ''title''),
                          (''Topics'', ''topics_display''), (''Sentiment'', ''sentiment''),
                          (''Published At'', ''publishedAt'')],
               data = map to_record rows,
               page_size = 10\<rparr>)"

text \<open>The table widget shows \<^verbatim>\<open>page_size\<close> records of \<^verbatim>\<open>data\<close> per page, in order.\<close>

function pages_of :: "nat \<Rightarrow> 'a list \<Rightarrow> 'a list list" where
  "pages_of n xs = (if n = 0 \<or> xs = [] then [] else take n xs # pages_of n (drop n xs))"
  by pat_completeness auto
termination
  by (relation "measure (\<lambda>(n, xs). length xs)") auto

definition table_pages :: "data_table \<Rightarrow> table_record list list" where
  "table_pages t = pages_of (page_size t) (data t)"

section \<open>Counting by hand\<close>

text \<open>
  The quantities the summaries are compared with. The labels a topics cell carries:
  the elements of a list, the text itself for a cell that was never decoded, none for
  a null. A (record, topic) pair is a record together with one label of its cell.
\<close>

definition topic_labels :: "topics_cell \<Rightarrow> string list" where
  "topic_labels c = (case c of TopicsNull \<Rightarrow> [] | TopicsStr s \<Rightarrow> [s] | TopicsList ts \<Rightarrow> ts)"

definition record_topic_pairs :: "article list \<Rightarrow> (article \<times> string) list" where
  "record_topic_pairs df = concat (map (\<lambda>r. map (Pair r) (topic_labels (topics r))) df)"

text \<open>Sample rows for the concrete instances below.\<close>

definition example_row :: "timestamp option \<Rightarrow> string option \<Rightarrow> topics_cell \<Rightarrow> row" where
  "example_row t s c =
     \<lparr>publishedAt = t, title = Some ''Chips'', sentiment = s, topics = c,
      text_col = Some ''chips are up'', source = Some ''wire'', url = Some ''http://x''\<rparr>"

definition example_article :: "timestamp option \<Rightarrow> string option \<Rightarrow> topics_cell \<Rightarrow> article" where
  "example_article t s c = add_derived (example_row t s c)"

section \<open>Facts about the pandas operations\<close>

lemma set_unique: "set (unique xs) = set xs"
  by (induction xs rule: unique.induct) auto

lemma distinct_unique: "distinct (unique xs)"
  by (induction xs rule: unique.induct) (auto simp: set_unique)

lemma sum_list_counts_unique:
  "sum_list (map (count_list vs) (unique vs)) = length vs"
proof -
  have "sum_list (map (count_list vs) (unique vs)) = sum (count_list vs) (set (unique vs))"
    by (rule sum_list_distinct_conv_sum_set [OF distinct_unique])
  also have "\<dots> = length vs"
    by (simp add: set_unique sum_count_set)
  finally show ?thesis .
qed

lemma sum_list_snd_sort_key:
  fixes kcs :: "('a \<times> nat) list"
  shows "sum_list (map snd (sort_key f kcs)) = sum_list (map snd kcs)"
proof -
  have "mset (map snd (sort_key f kcs)) = mset (map snd kcs)"
    by simp
  then have "sum_mset (mset (map snd (sort_key f kcs))) = sum_mset (mset (map snd kcs))"
    by (rule arg_cong)
  then show ?thesis
    by (simp only: sum_mset_sum_list)
qed

lemma sum_value_counts:
  "sum_list (map snd (value_counts col)) = length (dropna col)"
  by (simp add: value_counts_def Let_def sum_list_snd_sort_key comp_def sum_list_counts_unique)

lemma dropna_append: "dropna (xs @ ys) = dropna xs @ dropna ys"
  by (simp add: dropna_def)

lemma dropna_Cons:
  "dropna (c # col) = (case c of None \<Rightarrow> dropna col | Some v \<Rightarrow> v # dropna col)"
  by (simp add: dropna_def split: option.splits)

lemma length_dropna_map:
  "length (dropna (map f xs)) = length (filter (\<lambda>r. f r \<noteq> None) xs)"
  by (induction xs) (auto simp: dropna_Cons dropna_def split: option.splits)

lemmas example_defs = example_article_def example_row_def add_derived_def to_datetime_def
  dt_date_def dt_hour_def

section \<open>Filter stage\<close>

text \<open>
  C1, as amended: a record is retained by the filter exactly when it is in the loaded
  frame and its calendar date is not null and not earlier than today - 7. No upper bound
  is enforced, so a record dated after today is retained as well.
\<close>

theorem filter_stage_retains:
  "r \<in> set (filter_stage today df) \<longleftrightarrow>
     r \<in> set df \<and> (\<exists>d. date r = Some d \<and> today - 7 \<le> d)"
  by (auto simp: filter_stage_def last_7_days_def split: option.splits)

text \<open>With today = day 10: a record of day 5 is retained, one of day 2 is not.\<close>

theorem filter_stage_retains_witness:
  "example_article (Some 432000) (Some ''positive'') (TopicsList [''ai''])
     \<in> set (filter_stage 10
         [example_article (Some 432000) (Some ''positive'') (TopicsList [''ai'']),
          example_article (Some 172800) (Some ''negative'') (TopicsList [''ai''])])
   \<and> example_article (Some 172800) (Some ''negative'') (TopicsList [''ai''])
     \<notin> set (filter_stage 10
         [example_article (Some 432000) (Some ''positive'') (TopicsList [''ai'']),
          example_article (Some 172800) (Some ''negative'') (TopicsList [''ai''])])"
  using filter_stage_retains [of
      "example_article (Some 432000) (Some ''positive'') (TopicsList [''ai''])" 10
      "[example_article (Some 432000) (Some ''positive'') (TopicsList [''ai'']),
        example_article (Some 172800) (Some ''negative'') (TopicsList [''ai''])]"]
    filter_stage_retains [of
      "example_article (Some 172800) (Some ''negative'') (TopicsList [''ai''])" 10
      "[example_article (Some 432000) (Some ''positive'') (TopicsList [''ai'']),
        example_article (Some 172800) (Some ''negative'') (TopicsList [''ai''])]"]
  by (simp add: example_defs)

text \<open>
  The window [today - 7, today] is not what the filter keeps: with today = day 10, a
  record published on day 11 survives.
\<close>

theorem filter_stage_future_counterexample:
  "filter_stage 10 [example_article (Some 950400) (Some ''positive'') (TopicsList [''ai''])]
     = [example_article (Some 950400) (Some ''positive'') (TopicsList [''ai''])]
   \<and> date (example_article (Some 950400) (Some ''positive'') (TopicsList [''ai''])) = Some 11
   \<and> \<not> (11 \<le> (10::int))"
  by (simp add: filter_stage_def last_7_days_def example_defs)

section \<open>Sentiment distribution\<close>

text \<open>
  C2, as amended: the per-sentiment counts of the sentiment distribution add up to the
  number of records of the frame whose sentiment is not null.
\<close>

theorem sentiment_counts_total:
  "sum_list (map snd (sentiment_counts df)) = length (filter (\<lambda>r. sentiment r \<noteq> None) df)"
  by (simp add: sentiment_counts_def sum_value_counts length_dropna_map)

text \<open>
  Three records with sentiments positive, null and negative: the counts add up to 2,
  the frame has 3 records.
\<close>

theorem sentiment_counts_null_counterexample:
  "sum_list (map snd (sentiment_counts
      [example_article (Some 0) (Some ''positive'') (TopicsList [''ai'']),
       example_article (Some 60) None (TopicsList [''ai'']),
       example_article (Some 120) (Some ''negative'') (TopicsList [])])) = 2
   \<and> length
      [example_article (Some 0) (Some ''positive'') (TopicsList [''ai'']),
       example_article (Some 60) None (TopicsList [''ai'']),
       example_article (Some 120) (Some ''negative'') (TopicsList [])] = 3"
  by (simp add: sentiment_counts_def value_counts_def dropna_def example_defs)

section \<open>Topic counts\<close>

lemma dropna_explode: "dropna (explode c) = topic_labels c"
  by (induction c rule: explode.induct) (simp_all add: dropna_def topic_labels_def comp_def)

lemma dropna_exploded:
  "dropna (concat (map (\<lambda>r. explode (topics r)) df))
     = concat (map (\<lambda>r. topic_labels (topics r)) df)"
  by (induction df) (simp_all add: dropna_append dropna_explode, simp add: dropna_def)

lemma length_record_topic_pairs:
  "length (record_topic_pairs df) = length (concat (map (\<lambda>r. topic_labels (topics r)) df))"
  by (induction df) (simp_all add: record_topic_pairs_def)

lemma topic_counts_sum:
  "sum_list (map snd (topic_counts df)) = length (record_topic_pairs df)"
  by (simp add: topic_counts_def sum_value_counts dropna_exploded length_record_topic_pairs)

lemma length_le_pairs:
  "\<forall>r\<in>set df. topic_labels (topics r) \<noteq> [] \<Longrightarrow> length df \<le> length (record_topic_pairs df)"
proof (induction df)
  case Nil
  then show ?case by (simp add: record_topic_pairs_def)
next
  case (Cons r df)
  have "topic_labels (topics r) \<noteq> []"
    using Cons.prems by simp
  then have "1 \<le> length (topic_labels (topics r))"
    by (cases "topic_labels (topics r)") simp_all
  moreover have "length df \<le> length (record_topic_pairs df)"
    using Cons by simp
  ultimately show ?case
    by (simp add: record_topic_pairs_def)
qed

text \<open>
  C3, as amended: the topic counts add up to the number of (record, topic) pairs of the
  frame; they add up to at least the number of records when every record carries at
  least one topic.
\<close>

theorem topic_counts_total:
  "sum_list (map snd (topic_counts df)) = length (record_topic_pairs df)
   \<and> ((\<forall>r\<in>set df. topic_labels (topics r) \<noteq> []) \<longrightarrow>
        length df \<le> sum_list (map snd (topic_counts df)))"
  using topic_counts_sum [of df] length_le_pairs [of df] by simp

theorem topic_counts_total_witness:
  "sum_list (map snd (topic_counts
      [example_article (Some 0) (Some ''positive'') (TopicsList [''ai'', ''chips'']),
       example_article (Some 60) (Some ''negative'') (TopicsList [''ai''])])) = 3
   \<and> topic_labels (topics (example_article (Some 0) (Some ''positive'')
        (TopicsList [''ai'', ''chips'']))) \<noteq> []
   \<and> topic_labels (topics (example_article (Some 60) (Some ''negative'')
        (TopicsList [''ai'']))) \<noteq> []
   \<and> (2::nat) \<le> 3"
  using topic_counts_total [of
      "[example_article (Some 0) (Some ''positive'') (TopicsList [''ai'', ''chips'']),
        example_article (Some 60) (Some ''negative'') (TopicsList [''ai''])]"]
  by (simp add: record_topic_pairs_def topic_labels_def example_defs)

text \<open>One record with an empty topics list: the counts add up to 0, below 1 record.\<close>

theorem topic_counts_empty_topics_counterexample:
  "sum_list (map snd (topic_counts
      [example_article (Some 0) (Some ''positive'') (TopicsList [])])) = 0
   \<and> length [example_article (Some 0) (Some ''positive'') (TopicsList [])] = 1"
  by (simp add: topic_counts_def value_counts_def dropna_def example_defs)

section \<open>Daily trend\<close>

lemma count_list_filter:
  "P k \<Longrightarrow> count_list (filter P ks) k = count_list ks k"
  by (induction ks) auto

lemma groupby_size_filter_sum:
  "sum_list (map snd (filter (\<lambda>kc. P (fst kc)) (groupby_size ks)))
     = length (filter P (dropna_keys ks))"
proof -
  let ?vs = "dropna_keys ks"
  let ?us = "filter P (sort (unique ?vs))"
  have d: "distinct ?us"
    by (simp add: distinct_unique)
  have s: "set ?us = set (filter P ?vs)"
    by (auto simp: set_unique)
  have "filter (\<lambda>kc. P (fst kc)) (groupby_size ks) = map (\<lambda>k. (k, count_list ?vs k)) ?us"
    by (simp add: groupby_size_def Let_def filter_map comp_def)
  then have "sum_list (map snd (filter (\<lambda>kc. P (fst kc)) (groupby_size ks)))
      = sum_list (map (count_list ?vs) ?us)"
    by (simp add: comp_def)
  also have "\<dots> = sum (count_list ?vs) (set ?us)"
    by (rule sum_list_distinct_conv_sum_set [OF d])
  also have "\<dots> = sum (count_list (filter P ?vs)) (set (filter P ?vs))"
    unfolding s by (rule sum.cong) (simp_all add: count_list_filter)
  also have "\<dots> = length (filter P ?vs)"
    by (simp add: sum_count_set)
  finally show ?thesis .
qed

lemma length_filter_dropna_keys:
  "length (filter (\<lambda>k. fst k = d) (dropna_keys (map (\<lambda>r. (f r, g r)) df)))
     = length (filter (\<lambda>r. f r = Some d \<and> g r \<noteq> None) df)"
  by (induction df) (auto simp: dropna_keys_def split: option.splits)

text \<open>
  C4, as amended: for every date, the daily-trend counts of that date, summed over the
  sentiment labels, equal the number of records of the frame with that date and a
  sentiment that is not null.
\<close>

theorem sentiment_trend_date_total:
  "sum_list (map snd (filter (\<lambda>kc. fst (fst kc) = d) (sentiment_trend df)))
     = length (filter (\<lambda>r. date r = Some d \<and> sentiment r \<noteq> None) df)"
proof -
  have "sum_list (map snd (filter (\<lambda>kc. fst (fst kc) = d) (sentiment_trend df)))
      = length (filter (\<lambda>k. fst k = d) (dropna_keys (map (\<lambda>r. (date r, sentiment r)) df)))"
    unfolding sentiment_trend_def by (rule groupby_size_filter_sum)
  then show ?thesis
    by (simp only: length_filter_dropna_keys)
qed

theorem sentiment_trend_date_total_witness:
  "sum_list (map snd (filter (\<lambda>kc. fst (fst kc) = 0) (sentiment_trend
      [example_article (Some 0) (Some ''positive'') (TopicsList [''ai'']),
       example_article (Some 60) None (TopicsList [''ai'']),
       example_article (Some 86400) (Some ''negative'') (TopicsList [''ai'']),
       example_article (Some 120) (Some ''negative'') (TopicsList [])]))) = 2"
  using sentiment_trend_date_total [of 0
      "[example_article (Some 0) (Some ''positive'') (TopicsList [''ai'']),
       example_article (Some 60) None (TopicsList [''ai'']),
       example_article (Some 86400) (Some ''negative'') (TopicsList [''ai'']),
       example_article (Some 120) (Some ''negative'') (TopicsList [])]"]
  by (simp add: example_defs)

text \<open>
  Two records of day 0, one with a null sentiment: the trend counts of day 0 add up to
  1, the frame has 2 records of that date.
\<close>

theorem sentiment_trend_null_counterexample:
  "sum_list (map snd (filter (\<lambda>kc. fst (fst kc) = 0) (sentiment_trend
      [example_article (Some 0) (Some ''positive'') (TopicsList [''ai'']),
       example_article (Some 60) None (TopicsList [''ai''])]))) = 1
   \<and> date (example_article (Some 0) (Some ''positive'') (TopicsList [''ai''])) = Some 0
   \<and> date (example_article (Some 60) None (TopicsList [''ai''])) = Some 0
   \<and> length (filter (\<lambda>r. date r = Some 0)
      [example_article (Some 0) (Some ''positive'') (TopicsList [''ai'']),
       example_article (Some 60) None (TopicsList [''ai''])]) = 2"
  by (simp add: sentiment_trend_def groupby_size_def dropna_keys_def example_defs)

section \<open>Records without topics\<close>

lemma topic_counts_skip:
  "topic_labels (topics r) = [] \<Longrightarrow> topic_counts (xs @ r # ys) = topic_counts (xs @ ys)"
  by (simp add: topic_counts_def value_counts_def dropna_append dropna_explode
      dropna_exploded)

lemma map_of_value_counts:
  "map_of (value_counts col) k
     = (if k \<in> set (dropna col) then Some (count_list (dropna col) k) else None)"
proof -
  let ?vs = "dropna col"
  let ?kcs = "map (\<lambda>k. (k, count_list ?vs k)) (unique ?vs)"
  let ?srt = "sort_key (\<lambda>kc. - int (snd kc)) ?kcs"
  have "mset ?srt = mset ?kcs"
    by (rule mset_sort)
  then have "mset (map fst ?srt) = mset (map fst ?kcs)"
    by (simp only: mset_map)
  then have "distinct (map fst ?srt) = distinct (map fst ?kcs)"
    by (rule mset_eq_imp_distinct_iff)
  then have d: "distinct (map fst ?srt)"
    by (simp add: comp_def distinct_unique)
  have s: "set ?srt = (\<lambda>k. (k, count_list ?vs k)) ` set ?vs"
    by (simp add: set_unique)
  show ?thesis
  proof (cases "k \<in> set ?vs")
    case True
    then have "(k, count_list ?vs k) \<in> set ?srt"
      unfolding s by blast
    then have "map_of ?srt k = Some (count_list ?vs k)"
      using d by simp
    then show ?thesis
      using True by (simp add: value_counts_def Let_def)
  next
    case False
    then have "k \<notin> fst ` set ?srt"
      unfolding s by force
    then have "map_of ?srt k = None"
      by (simp add: map_of_eq_None_iff)
    then show ?thesis
      using False by (simp add: value_counts_def Let_def)
  qed
qed

text \<open>
  C8, as amended: a record whose topics list is empty adds no (record, topic) row, so
  the topic counts are those of the frame without it; it adds one to the sentiment
  distribution, under its own label, when its sentiment is not null, and nothing when
  its sentiment is null.
\<close>

theorem empty_topics_contribution:
  assumes "topics r = TopicsList []"
  shows "topic_counts (xs @ r # ys) = topic_counts (xs @ ys)
    \<and> record_topic_pairs [r] = []
    \<and> sum_list (map snd (sentiment_counts (xs @ r # ys)))
        = sum_list (map snd (sentiment_counts (xs @ ys)))
          + (if sentiment r = None then 0 else 1)
    \<and> (\<forall>s. sentiment r = Some s \<longrightarrow>
          map_of (sentiment_counts (xs @ r # ys)) s
            = Some (Suc (count_list (dropna (map sentiment (xs @ ys))) s)))"
proof -
  have "topic_labels (topics r) = []"
    using assms by (simp add: topic_labels_def)
  then have "topic_counts (xs @ r # ys) = topic_counts (xs @ ys)"
    by (rule topic_counts_skip)
  moreover have "record_topic_pairs [r] = []"
    using assms by (simp add: record_topic_pairs_def topic_labels_def)
  moreover have "sum_list (map snd (sentiment_counts (xs @ r # ys)))
        = sum_list (map snd (sentiment_counts (xs @ ys)))
          + (if sentiment r = None then 0 else 1)"
    by (simp add: sentiment_counts_def sum_value_counts length_dropna_map del: map_append)
  moreover have "map_of (sentiment_counts (xs @ r # ys)) s
            = Some (Suc (count_list (dropna (map sentiment (xs @ ys))) s))"
    if "sentiment r = Some s" for s
    using that
    by (simp add: sentiment_counts_def map_of_value_counts dropna_append dropna_Cons)
  ultimately show ?thesis by simp
qed

theorem empty_topics_contribution_witness:
  "topics (example_article (Some 60) (Some ''negative'') (TopicsList [])) = TopicsList []
   \<and> topic_counts
       [example_article (Some 0) (Some ''negative'') (TopicsList [''ai'']),
        example_article (Some 60) (Some ''negative'') (TopicsList [])]
     = [(''ai'', 1)]
   \<and> sum_list (map snd (sentiment_counts
       [example_article (Some 0) (Some ''negative'') (TopicsList [''ai'']),
        example_article (Some 60) (Some ''negative'') (TopicsList [])])) = 2
   \<and> map_of (sentiment_counts
       [example_article (Some 0) (Some ''negative'') (TopicsList [''ai'']),
        example_article (Some 60) (Some ''negative'') (TopicsList [])]) ''negative'' = Some 2"
  using empty_topics_contribution [of
      "example_article (Some 60) (Some ''negative'') (TopicsList [])"
      "[example_article (Some 0) (Some ''negative'') (TopicsList [''ai''])]" "[]"]
  by (simp add: example_defs topic_counts_def sentiment_counts_def value_counts_def dropna_def)

text \<open>
  A record with an empty topics list and a null sentiment contributes no record to the
  sentiment distribution.
\<close>

theorem empty_topics_null_sentiment_counterexample:
  "topics (example_article (Some 0) None (TopicsList [])) = TopicsList []
   \<and> sentiment_counts [example_article (Some 0) None (TopicsList [])] = []
   \<and> sum_list (map snd (sentiment_counts [example_article (Some 0) None (TopicsList [])])) = 0"
  by (simp add: example_defs sentiment_counts_def value_counts_def dropna_def)


section \<open>Date-range caption\<close>

lemma filter_stage_dates_Some:
  "map date (filter_stage today df) = map Some (dropna (map date (filter_stage today df)))"
  by (induction df) (auto simp: filter_stage_def dropna_Cons dropna_def split: option.splits)

lemma filter_stage_dropna_Nil:
  "dropna (map date (filter_stage today df)) = [] \<longleftrightarrow> filter_stage today df = []"
proof -
  have "length (map date (filter_stage today df))
      = length (map Some (dropna (map date (filter_stage today df))))"
    by (simp only: filter_stage_dates_Some [symmetric])
  then show ?thesis by auto
qed

lemma series_min_Min:
  assumes "dropna col \<noteq> []"
  shows "series_min col = Some (Min (set (dropna col)))"
proof (cases "dropna col")
  case Nil
  with assms show ?thesis by simp
next
  case (Cons x rest)
  have "fold min rest x = Min (set (x # rest))"
    by (rule Min.set_eq_fold [symmetric])
  then show ?thesis
    using Cons by (simp add: series_min_def)
qed

lemma series_max_Max:
  assumes "dropna col \<noteq> []"
  shows "series_max col = Some (Max (set (dropna col)))"
proof (cases "dropna col")
  case Nil
  with assms show ?thesis by simp
next
  case (Cons x rest)
  have "fold max rest x = Max (set (x # rest))"
    by (rule Max.set_eq_fold [symmetric])
  then show ?thesis
    using Cons by (simp add: series_max_def)
qed

text \<open>
  C7: when the filter stage leaves no record, formatting the date-range caption raises
  (the attribute lookup on the NaN of the empty date column); when it leaves at least one
  record, the caption is made of the least and the greatest retained date.
\<close>

theorem date_range_after_filter:
  "(filter_stage today df = [] \<longrightarrow>
      date_range fmt (filter_stage today df) = Inl AttributeError)
   \<and> (filter_stage today df \<noteq> [] \<longrightarrow>
      date_range fmt (filter_stage today df)
        = Inr (fmt (Min (set (dropna (map date (filter_stage today df))))),
               fmt (Max (set (dropna (map date (filter_stage today df)))))))"
proof (cases "filter_stage today df = []")
  case True
  then show ?thesis
    by (simp add: date_range_def date_from_def strftime_def series_min_def dropna_def)
next
  case False
  then have ne: "dropna (map date (filter_stage today df)) \<noteq> []"
    by (simp add: filter_stage_dropna_Nil)
  show ?thesis
    using False series_min_Min [OF ne] series_max_Max [OF ne]
    by (simp add: date_range_def date_from_def date_to_def strftime_def)
qed

theorem date_range_after_filter_witness:
  "filter_stage 10 [example_article (Some 172800) (Some ''negative'') (TopicsList [''ai''])] = []
   \<and> date_range (\<lambda>d. ''day'')
        (filter_stage 10 [example_article (Some 172800) (Some ''negative'') (TopicsList [''ai''])])
      = Inl AttributeError
   \<and> filter_stage 10
        [example_article (Some 432000) (Some ''positive'') (TopicsList [''ai'']),
         example_article (Some 777600) (Some ''negative'') (TopicsList [''ai''])] \<noteq> []
   \<and> date_range (\<lambda>d. if d = 5 then ''five'' else if d = 9 then ''nine'' else ''other'')
        (filter_stage 10
          [example_article (Some 432000) (Some ''positive'') (TopicsList [''ai'']),
           example_article (Some 777600) (Some ''negative'') (TopicsList [''ai''])])
      = Inr (''five'', ''nine'')"
  using date_range_after_filter [of 10
      "[example_article (Some 172800) (Some ''negative'') (TopicsList [''ai''])]" "\<lambda>d. ''day''"]
    date_range_after_filter [of 10
      "[example_article (Some 432000) (Some ''positive'') (TopicsList [''ai'']),
        example_article (Some 777600) (Some ''negative'') (TopicsList [''ai''])]"
      "\<lambda>d. if d = 5 then ''five'' else if d = 9 then ''nine'' else ''other''"]
  by (simp add: filter_stage_def last_7_days_def dropna_def example_defs)

section \<open>The reducers leave the frame alone\<close>




end
